theory Spec2Isabelle
  imports Complex_Main
begin

section \<open>The subtractive synthesizer of my\_subsynth.py\<close>

text \<open>
  The class \<open>mySubSynth\<close> wires objects of the audio library pyo together: a MIDI
  envelope (\<open>MidiAdsr\<close>), three oscillators (\<open>LFO\<close>) chained through their
  \<open>add\<close> inputs, a lowpass filter (\<open>MoogLP\<close>) and a panner (\<open>Pan\<close>).
  Samples are modelled as \<open>real\<close>; the rounding of machine floats is not modelled.
  Python attributes with a leading underscore (\<open>self._type1\<close>) are the record fields
  with the prefix \<open>priv_\<close>; the parameters of a library object carry the prefix of
  its class (\<open>lfo_\<close>, \<open>moog_\<close>, \<open>adsr_\<close>, \<open>pan_\<close>, \<open>sl_\<close>).
\<close>

subsection \<open>Signals\<close>

text \<open>
  An argument that the library documents as "float or PyoObject" is a signal: a number,
  a reference to one of the objects the constructor creates, or the product that
  \<open>PyoObject.__mul__\<close> builds. References are by object identity, so a change of an
  oscillator's parameter is seen by every object that reads that oscillator.
\<close>

datatype sig =
    Num real
  | Velocity
  | Freqs
  | Env
  | Osc1
  | Osc2
  | Osc3
  | Filt
  | Times sig sig

record lfo =
  lfo_freq :: sig
  lfo_sharp :: sig
  lfo_type :: int
  lfo_mul :: sig
  lfo_add :: sig

record midiadsr =
  adsr_input :: sig
  adsr_attack :: real
  adsr_decay :: real
  adsr_sustain :: real
  adsr_release :: real
  adsr_mul :: real

record mooglp =
  moog_input :: sig
  moog_freq :: sig
  moog_res :: sig

record pan =
  pan_input :: sig
  pan_outs :: nat
  pan_pan :: sig

datatype pyval = IntV int | SigV sig

record slmap =
  sl_min :: real
  sl_max :: real
  sl_scale :: string
  sl_name :: string
  sl_init :: pyval
  sl_res :: string
  sl_dataOnly :: bool

record synth =
  priv_type1 :: int
  priv_sharp1 :: sig
  priv_type2 :: int
  priv_sharp2 :: sig
  priv_type3 :: int
  priv_sharp3 :: sig
  priv_cutoffFact :: sig
  priv_res :: sig
  priv_env :: midiadsr
  priv_osc1 :: lfo
  priv_osc2 :: lfo
  priv_osc3 :: lfo
  priv_filt :: mooglp
  priv_stereo :: pan
  priv_map_list_osc :: "slmap list option"
  priv_map_list_filt :: "slmap list option"

subsection \<open>The constructor\<close>

text \<open>
  \<open>__init__\<close> (lines 67 to 108). The two map lists do not exist as attributes until
  \<open>ctrl\<close> runs: they start as \<open>None\<close>.
\<close>

definition init :: "int \<Rightarrow> sig \<Rightarrow> int \<Rightarrow> sig \<Rightarrow> int \<Rightarrow> sig \<Rightarrow> sig \<Rightarrow> sig \<Rightarrow> synth" where
  "init type1 sharp1 type2 sharp2 type3 sharp3 cutoffFact res =
     \<lparr> priv_type1 = type1,
       priv_sharp1 = sharp1,
       priv_type2 = type2,
       priv_sharp2 = sharp2,
       priv_type3 = type3,
       priv_sharp3 = sharp3,
       priv_cutoffFact = cutoffFact,
       priv_res = res,
       priv_env = \<lparr> adsr_input = Velocity, adsr_attack = 0.05, adsr_decay = 0.4,
                    adsr_sustain = 0.2, adsr_release = 0.5, adsr_mul = 0.65 \<rparr>,
       priv_osc1 = \<lparr> lfo_freq = Freqs, lfo_sharp = sharp1, lfo_type = type1,
                     lfo_mul = Env, lfo_add = Num 0 \<rparr>,
       priv_osc2 = \<lparr> lfo_freq = Freqs, lfo_sharp = sharp2, lfo_type = type2,
                     lfo_mul = Env, lfo_add = Osc1 \<rparr>,
       priv_osc3 = \<lparr> lfo_freq = Freqs, lfo_sharp = sharp3, lfo_type = type3,
                     lfo_mul = Env, lfo_add = Osc2 \<rparr>,
       priv_filt = \<lparr> moog_input = Osc3,
                     moog_freq = Times (Times Env (Num 20000)) cutoffFact,
                     moog_res = res \<rparr>,
       priv_stereo = \<lparr> pan_input = Filt, pan_outs = 2, pan_pan = Num 0.5 \<rparr>,
       priv_map_list_osc = None,
       priv_map_list_filt = None \<rparr>"

text \<open>\<open>mySubSynth()\<close>: the defaults of the signature at line 67.\<close>

definition mySubSynth :: synth where
  "mySubSynth = init 0 (Num 1) 0 (Num 1) 0 (Num 1) (Num 0.5) (Num 0.5)"

subsection \<open>Setters, properties\<close>

definition setType1 :: "int \<Rightarrow> synth \<Rightarrow> synth" where
  "setType1 x s = s\<lparr> priv_type1 := x, priv_osc1 := (priv_osc1 s)\<lparr> lfo_type := x \<rparr> \<rparr>"

definition setSharp1 :: "sig \<Rightarrow> synth \<Rightarrow> synth" where
  "setSharp1 x s = s\<lparr> priv_sharp1 := x, priv_osc1 := (priv_osc1 s)\<lparr> lfo_sharp := x \<rparr> \<rparr>"

definition setType2 :: "int \<Rightarrow> synth \<Rightarrow> synth" where
  "setType2 x s = s\<lparr> priv_type2 := x, priv_osc2 := (priv_osc2 s)\<lparr> lfo_type := x \<rparr> \<rparr>"

definition setSharp2 :: "sig \<Rightarrow> synth \<Rightarrow> synth" where
  "setSharp2 x s = s\<lparr> priv_sharp2 := x, priv_osc2 := (priv_osc2 s)\<lparr> lfo_sharp := x \<rparr> \<rparr>"

definition setType3 :: "int \<Rightarrow> synth \<Rightarrow> synth" where
  "setType3 x s = s\<lparr> priv_type3 := x, priv_osc3 := (priv_osc3 s)\<lparr> lfo_type := x \<rparr> \<rparr>"

definition setSharp3 :: "sig \<Rightarrow> synth \<Rightarrow> synth" where
  "setSharp3 x s = s\<lparr> priv_sharp3 := x, priv_osc3 := (priv_osc3 s)\<lparr> lfo_sharp := x \<rparr> \<rparr>"

definition setCutoffFact :: "sig \<Rightarrow> synth \<Rightarrow> synth" where
  "setCutoffFact x s =
     s\<lparr> priv_cutoffFact := x,
        priv_filt := (priv_filt s)\<lparr> moog_freq := Times (Times Env (Num 20000)) x \<rparr> \<rparr>"

definition setRes :: "sig \<Rightarrow> synth \<Rightarrow> synth" where
  "setRes x s = s\<lparr> priv_res := x, priv_filt := (priv_filt s)\<lparr> moog_res := x \<rparr> \<rparr>"

text \<open>
  \<open>play\<close>, \<open>stop\<close> and \<open>out\<close> (lines 125 to 147) start and stop the library
  objects and write no attribute of the synthesizer; they are not part of the model.
\<close>

text \<open>The property getters (lines 253 to 312).\<close>

definition type1 :: "synth \<Rightarrow> int" where "type1 s = priv_type1 s"
definition sharp1 :: "synth \<Rightarrow> sig" where "sharp1 s = priv_sharp1 s"
definition type2 :: "synth \<Rightarrow> int" where "type2 s = priv_type2 s"
definition sharp2 :: "synth \<Rightarrow> sig" where "sharp2 s = priv_sharp2 s"
definition type3 :: "synth \<Rightarrow> int" where "type3 s = priv_type3 s"
definition sharp3 :: "synth \<Rightarrow> sig" where "sharp3 s = priv_sharp3 s"
definition cutoffFact :: "synth \<Rightarrow> sig" where "cutoffFact s = priv_cutoffFact s"
definition res :: "synth \<Rightarrow> sig" where "res s = priv_res s"

text \<open>The property setters: each calls the method of the same parameter.\<close>

definition type1_setter :: "int \<Rightarrow> synth \<Rightarrow> synth" where "type1_setter x s = setType1 x s"
definition sharp1_setter :: "sig \<Rightarrow> synth \<Rightarrow> synth" where "sharp1_setter x s = setSharp1 x s"
definition type2_setter :: "int \<Rightarrow> synth \<Rightarrow> synth" where "type2_setter x s = setType2 x s"
definition sharp2_setter :: "sig \<Rightarrow> synth \<Rightarrow> synth" where "sharp2_setter x s = setSharp2 x s"
definition type3_setter :: "int \<Rightarrow> synth \<Rightarrow> synth" where "type3_setter x s = setType3 x s"
definition sharp3_setter :: "sig \<Rightarrow> synth \<Rightarrow> synth" where "sharp3_setter x s = setSharp3 x s"
definition cutoffFact_setter :: "sig \<Rightarrow> synth \<Rightarrow> synth" where
  "cutoffFact_setter x s = setCutoffFact x s"
definition res_setter :: "sig \<Rightarrow> synth \<Rightarrow> synth" where "res_setter x s = setRes x s"

subsection \<open>The control panels\<close>

text \<open>
  \<open>SLMap(min, max, scale, name, init, res='float', ramp=0.025, dataOnly=False)\<close> of
  the library, as the record of its arguments (the ramp time is left out: \<open>ctrl\<close>
  never passes it).
\<close>

definition SLMap :: "real \<Rightarrow> real \<Rightarrow> string \<Rightarrow> string \<Rightarrow> pyval \<Rightarrow> string \<Rightarrow> bool \<Rightarrow> slmap" where
  "SLMap mn mx scale name ini rs dataOnly =
     \<lparr> sl_min = mn, sl_max = mx, sl_scale = scale, sl_name = name, sl_init = ini,
       sl_res = rs, sl_dataOnly = dataOnly \<rparr>"

text \<open>
  A call of \<open>ctrl\<close> on an object opens one window of sliders. \<open>w_map_list = None\<close>
  is the call with no map list, where the library uses the defaults of the object's
  class.
\<close>

datatype target = Self | EnvObj

record window =
  w_target :: target
  w_map_list :: "slmap list option"
  w_title :: "string option"
  w_wxnoserver :: bool

text \<open>
  \<open>ctrl\<close> (lines 110 to 123): the argument \<open>map_list\<close> is never read. The method
  stores the two lists in the object and opens three windows, the third one on the
  envelope.
\<close>

definition ctrl :: "slmap list option \<Rightarrow> string option \<Rightarrow> bool \<Rightarrow> synth \<Rightarrow> synth \<times> window list" where
  "ctrl map_list title wxnoserver s =
     (let l_osc = [SLMap 0 7 ''lin'' ''type1'' (IntV (priv_type1 s)) ''int'' True,
                   SLMap 0 1 ''lin'' ''sharp1'' (SigV (priv_sharp1 s)) ''float'' False,
                   SLMap 0 7 ''lin'' ''type2'' (IntV (priv_type2 s)) ''int'' True,
                   SLMap 0 1 ''lin'' ''sharp2'' (SigV (priv_sharp2 s)) ''float'' False,
                   SLMap 0 7 ''lin'' ''type3'' (IntV (priv_type3 s)) ''int'' True,
                   SLMap 0 1 ''lin'' ''sharp3'' (SigV (priv_sharp3 s)) ''float'' False];
          l_filt = [SLMap 0 1 ''lin'' ''cutoffFact'' (SigV (priv_cutoffFact s)) ''float'' False,
                    SLMap 0 1 ''lin'' ''res'' (SigV (priv_res s)) ''float'' False]
      in (s\<lparr> priv_map_list_osc := Some l_osc, priv_map_list_filt := Some l_filt \<rparr>,
          [\<lparr> w_target = Self, w_map_list = Some l_osc, w_title = title,
              w_wxnoserver = wxnoserver \<rparr>,
           \<lparr> w_target = Self, w_map_list = Some l_filt, w_title = title,
              w_wxnoserver = wxnoserver \<rparr>,
           \<lparr> w_target = EnvObj, w_map_list = None, w_title = None,
              w_wxnoserver = False \<rparr>]))"

text \<open>The sliders that the windows on the synthesizer itself carry, in order.\<close>

definition self_maps :: "window list \<Rightarrow> slmap list" where
  "self_maps ws =
     concat (map (\<lambda>w. case w_map_list w of None \<Rightarrow> [] | Some l \<Rightarrow> l)
                 (filter (\<lambda>w. w_target w = Self) ws))"

subsection \<open>Sequences of calls\<close>

datatype call =
    SetType1 int
  | SetSharp1 sig
  | SetType2 int
  | SetSharp2 sig
  | SetType3 int
  | SetSharp3 sig
  | SetCutoffFact sig
  | SetRes sig
  | Ctrl "slmap list option" "string option" bool

fun exec :: "call \<Rightarrow> synth \<Rightarrow> synth" where
  "exec (SetType1 x) s = setType1 x s"
| "exec (SetSharp1 x) s = setSharp1 x s"
| "exec (SetType2 x) s = setType2 x s"
| "exec (SetSharp2 x) s = setSharp2 x s"
| "exec (SetType3 x) s = setType3 x s"
| "exec (SetSharp3 x) s = setSharp3 x s"
| "exec (SetCutoffFact x) s = setCutoffFact x s"
| "exec (SetRes x) s = setRes x s"
| "exec (Ctrl m t w) s = fst (ctrl m t w s)"

fun run :: "call list \<Rightarrow> synth \<Rightarrow> synth" where
  "run [] s = s"
| "run (c # cs) s = run cs (exec c s)"

text \<open>The eight parameters by name, as stored and as the library objects hold them.\<close>

datatype param = PType1 | PSharp1 | PType2 | PSharp2 | PType3 | PSharp3 | PCutoffFact | PRes

fun stored :: "param \<Rightarrow> synth \<Rightarrow> pyval" where
  "stored PType1 s = IntV (type1 s)"
| "stored PSharp1 s = SigV (sharp1 s)"
| "stored PType2 s = IntV (type2 s)"
| "stored PSharp2 s = SigV (sharp2 s)"
| "stored PType3 s = IntV (type3 s)"
| "stored PSharp3 s = SigV (sharp3 s)"
| "stored PCutoffFact s = SigV (cutoffFact s)"
| "stored PRes s = SigV (res s)"

fun dsp_param :: "param \<Rightarrow> synth \<Rightarrow> pyval" where
  "dsp_param PType1 s = IntV (lfo_type (priv_osc1 s))"
| "dsp_param PSharp1 s = SigV (lfo_sharp (priv_osc1 s))"
| "dsp_param PType2 s = IntV (lfo_type (priv_osc2 s))"
| "dsp_param PSharp2 s = SigV (lfo_sharp (priv_osc2 s))"
| "dsp_param PType3 s = IntV (lfo_type (priv_osc3 s))"
| "dsp_param PSharp3 s = SigV (lfo_sharp (priv_osc3 s))"
| "dsp_param PCutoffFact s = SigV (moog_freq (priv_filt s))"
| "dsp_param PRes s = SigV (moog_res (priv_filt s))"

text \<open>
  What no setter writes: the inputs of the objects, the envelope, the panner and the
  map lists.
\<close>

definition wiring :: "synth \<Rightarrow> (sig \<times> sig \<times> sig) \<times> (sig \<times> sig \<times> sig) \<times> (sig \<times> sig \<times> sig) \<times> sig" where
  "wiring s =
     ((lfo_freq (priv_osc1 s), lfo_mul (priv_osc1 s), lfo_add (priv_osc1 s)),
      (lfo_freq (priv_osc2 s), lfo_mul (priv_osc2 s), lfo_add (priv_osc2 s)),
      (lfo_freq (priv_osc3 s), lfo_mul (priv_osc3 s), lfo_add (priv_osc3 s)),
      moog_input (priv_filt s))"

text \<open>
  A value lies in a declared range when it is a number of that range; a signal that is
  not a number has no single value to compare.
\<close>

fun in_range :: "real \<Rightarrow> real \<Rightarrow> sig \<Rightarrow> bool" where
  "in_range lo hi (Num c) = (lo \<le> c \<and> c \<le> hi)"
| "in_range lo hi x = False"

subsection \<open>One sample of the chain\<close>

text \<open>
  The library computes the objects of a server in the order of their creation, each
  reading the current output of the objects it refers to. \<open>streams\<close> holds those
  outputs for one sample. What the library's note input, pitch conversion and
  envelope produce for the sample is the input \<open>tick\<close>.
\<close>

record streams =
  v_velocity :: real
  v_freqs :: real
  v_env :: real
  v_osc1 :: real
  v_osc2 :: real
  v_osc3 :: real
  v_filt :: real

record tick =
  t_velocity :: real
  t_freqs :: real
  t_env :: real

fun sig_val :: "streams \<Rightarrow> sig \<Rightarrow> real" where
  "sig_val st (Num c) = c"
| "sig_val st Velocity = v_velocity st"
| "sig_val st Freqs = v_freqs st"
| "sig_val st Env = v_env st"
| "sig_val st Osc1 = v_osc1 st"
| "sig_val st Osc2 = v_osc2 st"
| "sig_val st Osc3 = v_osc3 st"
| "sig_val st Filt = v_filt st"
| "sig_val st (Times a b) = sig_val st a * sig_val st b"

text \<open>
  The waveform generator of \<open>LFO\<close> is library code: \<open>w\<close> is what it produces for the
  sample from the type, the sharpness and the frequency (its phase is inside \<open>w\<close>).
  Every library object then applies \<open>mul\<close> and \<open>add\<close>.
\<close>

definition lfo_raw :: "(int \<Rightarrow> real \<Rightarrow> real \<Rightarrow> real) \<Rightarrow> streams \<Rightarrow> lfo \<Rightarrow> real" where
  "lfo_raw w st osc = w (lfo_type osc) (sig_val st (lfo_sharp osc)) (sig_val st (lfo_freq osc))"

definition lfo_out :: "(int \<Rightarrow> real \<Rightarrow> real \<Rightarrow> real) \<Rightarrow> streams \<Rightarrow> lfo \<Rightarrow> real" where
  "lfo_out w st osc = lfo_raw w st osc * sig_val st (lfo_mul osc) + sig_val st (lfo_add osc)"

definition streams0 :: "tick \<Rightarrow> streams" where
  "streams0 tk =
     \<lparr> v_velocity = t_velocity tk, v_freqs = t_freqs tk, v_env = t_env tk,
       v_osc1 = 0, v_osc2 = 0, v_osc3 = 0, v_filt = 0 \<rparr>"

definition streams1 :: "(nat \<Rightarrow> int \<Rightarrow> real \<Rightarrow> real \<Rightarrow> real) \<Rightarrow> synth \<Rightarrow> tick \<Rightarrow> streams" where
  "streams1 W s tk = (streams0 tk)\<lparr> v_osc1 := lfo_out (W 1) (streams0 tk) (priv_osc1 s) \<rparr>"

definition streams2 :: "(nat \<Rightarrow> int \<Rightarrow> real \<Rightarrow> real \<Rightarrow> real) \<Rightarrow> synth \<Rightarrow> tick \<Rightarrow> streams" where
  "streams2 W s tk = (streams1 W s tk)\<lparr> v_osc2 := lfo_out (W 2) (streams1 W s tk) (priv_osc2 s) \<rparr>"

definition streams3 :: "(nat \<Rightarrow> int \<Rightarrow> real \<Rightarrow> real \<Rightarrow> real) \<Rightarrow> synth \<Rightarrow> tick \<Rightarrow> streams" where
  "streams3 W s tk = (streams2 W s tk)\<lparr> v_osc3 := lfo_out (W 3) (streams2 W s tk) (priv_osc3 s) \<rparr>"

text \<open>The three signals that enter \<open>MoogLP\<close> for the sample.\<close>

definition filter_input :: "(nat \<Rightarrow> int \<Rightarrow> real \<Rightarrow> real \<Rightarrow> real) \<Rightarrow> synth \<Rightarrow> tick \<Rightarrow> real" where
  "filter_input W s tk = sig_val (streams3 W s tk) (moog_input (priv_filt s))"

definition filter_cutoff :: "(nat \<Rightarrow> int \<Rightarrow> real \<Rightarrow> real \<Rightarrow> real) \<Rightarrow> synth \<Rightarrow> tick \<Rightarrow> real" where
  "filter_cutoff W s tk = sig_val (streams3 W s tk) (moog_freq (priv_filt s))"

definition filter_res :: "(nat \<Rightarrow> int \<Rightarrow> real \<Rightarrow> real \<Rightarrow> real) \<Rightarrow> synth \<Rightarrow> tick \<Rightarrow> real" where
  "filter_res W s tk = sig_val (streams3 W s tk) (moog_res (priv_filt s))"

text \<open>
  The filter itself is library code: \<open>F\<close> is what it produces for the sample from its
  input, cutoff and resonance (its four stages are inside \<open>F\<close>).
\<close>

definition render :: "(nat \<Rightarrow> int \<Rightarrow> real \<Rightarrow> real \<Rightarrow> real) \<Rightarrow> (real \<Rightarrow> real \<Rightarrow> real \<Rightarrow> real) \<Rightarrow> synth \<Rightarrow> tick \<Rightarrow> streams" where
  "render W F s tk =
     (streams3 W s tk)\<lparr> v_filt := F (filter_input W s tk) (filter_cutoff W s tk) (filter_res W s tk) \<rparr>"

text \<open>
  Modelled from the spec: the pan law of the library's \<open>Pan\<close>, which is not in the
  source; section 4.5 of the spec: linear, left = sample * (1 - pan),
  right = sample * pan, for the two outputs that the constructor asks for.
\<close>

definition pan_out :: "streams \<Rightarrow> pan \<Rightarrow> real \<times> real" where
  "pan_out st p =
     (sig_val st (pan_input p) * (1 - sig_val st (pan_pan p)),
      sig_val st (pan_input p) * sig_val st (pan_pan p))"

definition render_stereo :: "(nat \<Rightarrow> int \<Rightarrow> real \<Rightarrow> real \<Rightarrow> real) \<Rightarrow> (real \<Rightarrow> real \<Rightarrow> real \<Rightarrow> real) \<Rightarrow> synth \<Rightarrow> tick \<Rightarrow> real \<times> real" where
  "render_stereo W F s tk = pan_out (render W F s tk) (priv_stereo s)"

text \<open>
  The spec's formulation of the signal before the filter (sections 4.2 and 4.5): the
  bank sums the three oscillators, the voice multiplies the sum by the envelope level.
\<close>

definition oscillatorBank_advance :: "real \<Rightarrow> real \<Rightarrow> real \<Rightarrow> real" where
  "oscillatorBank_advance r1 r2 r3 = r1 + r2 + r3"

definition voice_prefilter_spec :: "real \<Rightarrow> real \<Rightarrow> real \<Rightarrow> real \<Rightarrow> real" where
  "voice_prefilter_spec r1 r2 r3 level = oscillatorBank_advance r1 r2 r3 * level"

subsection \<open>The envelope of one note\<close>

text \<open>
  Modelled from the spec: the ramp generator of the library's \<open>MidiAdsr\<close>, which is
  not in the source; section 4.3 of the spec with linear ramps: the level rises from 0
  to the velocity during the attack, falls to sustain * velocity during the decay,
  holds there, and from the note-off falls from its level at that moment to 0 during
  the release. \<open>t\<close> counts seconds from the note-on, \<open>t_off\<close> is the note-off.
\<close>

definition held_level :: "midiadsr \<Rightarrow> real \<Rightarrow> real \<Rightarrow> real" where
  "held_level e vel t =
     (if t \<le> adsr_attack e then vel * (t / adsr_attack e)
      else if t \<le> adsr_attack e + adsr_decay e
        then vel - (vel - adsr_sustain e * vel) * ((t - adsr_attack e) / adsr_decay e)
      else adsr_sustain e * vel)"

definition adsr_level :: "midiadsr \<Rightarrow> real \<Rightarrow> real \<Rightarrow> real \<Rightarrow> real" where
  "adsr_level e vel t_off t =
     (if t < 0 then 0
      else if t \<le> t_off then held_level e vel t
      else if t \<le> t_off + adsr_release e
        then held_level e vel t_off * (1 - (t - t_off) / adsr_release e)
      else 0)"

text \<open>
  The output of the envelope object, the signal \<open>Env\<close> that the oscillators and the
  filter read: the level times the object's \<open>mul\<close> (line 90).
\<close>

definition env_out :: "midiadsr \<Rightarrow> real \<Rightarrow> real \<Rightarrow> real \<Rightarrow> real" where
  "env_out e vel t_off t = adsr_level e vel t_off t * adsr_mul e"

subsection \<open>The filter\<close>

text \<open>
  Modelled from the spec: the ladder filter of the library's \<open>MoogLP\<close>, which is not
  in the source; sections 3 and 4.4 of the spec: four cascaded one-pole lowpass stages
  with the same smoothing coefficient, the fourth stage's output fed back negatively
  into the first stage's input, scaled by the resonance; the resonance clamped to 0 up
  to 1; the coefficient derived from the cutoff and the sample rate \<open>fs\<close> by the
  bilinear or by the analog-matched mapping. The spec clamps the cutoff to the
  half-open range from 0 to Nyquist, which has no largest element: \<open>fmax\<close> is the
  largest cutoff the filter admits, to be taken below \<open>fs / 2\<close>.
\<close>

datatype coef_mapping = Bilinear | AnalogMatched

record ladder =
  y1 :: real
  y2 :: real
  y3 :: real
  y4 :: real


definition clamp :: "real \<Rightarrow> real \<Rightarrow> real \<Rightarrow> real" where
  "clamp lowest highest v =
     (let u = (if highest < v then highest else v) in if u < lowest then lowest else u)"

definition stage_coef :: "coef_mapping \<Rightarrow> real \<Rightarrow> real \<Rightarrow> real" where
  "stage_coef m fs fc =
     (case m of
        Bilinear \<Rightarrow> tan (pi * fc / fs) / (1 + tan (pi * fc / fs))
      | AnalogMatched \<Rightarrow> 1 - exp (- (2 * pi * fc / fs)))"

definition one_pole :: "real \<Rightarrow> real \<Rightarrow> real \<Rightarrow> real" where
  "one_pole g y x = y + g * (x - y)"

definition filter_process :: "coef_mapping \<Rightarrow> real \<Rightarrow> real \<Rightarrow> ladder \<Rightarrow> real \<Rightarrow> real \<Rightarrow> real \<Rightarrow> ladder" where
  "filter_process m fs fmax st x fc rs =
     (let g = stage_coef m fs (clamp 0 fmax fc);
          k = clamp 0 1 rs;
          a = one_pole g (y1 st) (x - k * y4 st);
          b = one_pole g (y2 st) a;
          c = one_pole g (y3 st) b;
          d = one_pole g (y4 st) c
      in \<lparr> y1 = a, y2 = b, y3 = c, y4 = d \<rparr>)"




text \<open>
  The filter alone on a sequence of samples, each with its input, cutoff and resonance:
  the fourth stage's output sample by sample; and a bound on all four stages.
\<close>

fun ladder_run :: "coef_mapping \<Rightarrow> real \<Rightarrow> real \<Rightarrow> ladder \<Rightarrow> (real \<times> real \<times> real) list \<Rightarrow> real list" where
  "ladder_run m fs fmax st [] = []"
| "ladder_run m fs fmax st ((x, fc, rs) # xs) =
     y4 (filter_process m fs fmax st x fc rs) #
     ladder_run m fs fmax (filter_process m fs fmax st x fc rs) xs"

definition ladder_within :: "real \<Rightarrow> ladder \<Rightarrow> bool" where
  "ladder_within C st = (\<bar>y1 st\<bar> \<le> C \<and> \<bar>y2 st\<bar> \<le> C \<and> \<bar>y3 st\<bar> \<le> C \<and> \<bar>y4 st\<bar> \<le> C)"

text \<open>The envelope object that line 90 creates.\<close>

definition env0 :: midiadsr where
  "env0 = \<lparr> adsr_input = Velocity, adsr_attack = 0.05, adsr_decay = 0.4,
            adsr_sustain = 0.2, adsr_release = 0.5, adsr_mul = 0.65 \<rparr>"

text \<open>The attributes that hold neither a parameter nor an oscillator or the filter.\<close>

definition untouched :: "synth \<Rightarrow> midiadsr \<times> pan \<times> slmap list option \<times> slmap list option" where
  "untouched s = (priv_env s, priv_stereo s, priv_map_list_osc s, priv_map_list_filt s)"

section \<open>Basic facts\<close>

lemmas setter_defs =
  setType1_def setSharp1_def setType2_def setSharp2_def setType3_def setSharp3_def
  setCutoffFact_def setRes_def

lemmas prop_setter_defs =
  type1_setter_def sharp1_setter_def type2_setter_def sharp2_setter_def
  type3_setter_def sharp3_setter_def cutoffFact_setter_def res_setter_def

lemmas getter_defs =
  type1_def sharp1_def type2_def sharp2_def type3_def sharp3_def cutoffFact_def res_def

text \<open>
  No call rewires the chain, and no call touches the envelope or the panner: by cases
  on the call, then by induction on the sequence with the state generalised.
\<close>

lemma exec_wiring: "wiring (exec c s) = wiring s"
  by (cases c) (simp_all add: wiring_def setter_defs ctrl_def Let_def)

lemma run_wiring: "wiring (run cs s) = wiring s"
  by (induction cs arbitrary: s) (simp_all add: exec_wiring)

lemma exec_env_stereo:
  "priv_env (exec c s) = priv_env s \<and> priv_stereo (exec c s) = priv_stereo s"
  by (cases c) (simp_all add: setter_defs ctrl_def Let_def)

lemma run_env_stereo:
  "priv_env (run cs s) = priv_env s \<and> priv_stereo (run cs s) = priv_stereo s"
  by (induction cs arbitrary: s) (simp_all add: exec_env_stereo)

lemma wiring_init:
  "wiring (init t1 s1 t2 s2 t3 s3 cf r) =
     ((Freqs, Env, Num 0), (Freqs, Env, Osc1), (Freqs, Env, Osc2), Osc3)"
  by (simp add: wiring_def init_def)

lemma env_init: "priv_env (run cs (init t1 s1 t2 s2 t3 s3 cf r)) = env0"
  by (simp add: run_env_stereo init_def env0_def)

lemma streams3_env: "v_env (streams3 W s tk) = t_env tk"
  by (simp add: streams3_def streams2_def streams1_def streams0_def)

section \<open>Reading a parameter back\<close>

text \<open>
  C1. For each of the eight parameters, a write through the method or through the
  property setter followed by a read through the property getter returns the value
  written, whatever the value and whatever the state before. No render step is part of
  either call.
\<close>

theorem set_get_roundtrip:
  "type1 (setType1 i s) = i \<and> type1 (type1_setter i s) = i \<and>
   type2 (setType2 i s) = i \<and> type2 (type2_setter i s) = i \<and>
   type3 (setType3 i s) = i \<and> type3 (type3_setter i s) = i \<and>
   sharp1 (setSharp1 x s) = x \<and> sharp1 (sharp1_setter x s) = x \<and>
   sharp2 (setSharp2 x s) = x \<and> sharp2 (sharp2_setter x s) = x \<and>
   sharp3 (setSharp3 x s) = x \<and> sharp3 (sharp3_setter x s) = x \<and>
   cutoffFact (setCutoffFact x s) = x \<and> cutoffFact (cutoffFact_setter x s) = x \<and>
   res (setRes x s) = x \<and> res (res_setter x s) = x"
  by (simp add: setter_defs prop_setter_defs getter_defs)

section \<open>Values outside the declared range\<close>

text \<open>
  C2, as stated: a setter clamps an argument outside the parameter's declared range
  into the range. It does not: after \<open>setRes(2)\<close> on the default synthesizer the
  getter returns 2 and the filter's \<open>res\<close> is 2, and after \<open>setSharp1(-1)\<close> the
  sharpness is -1, in the attribute and in the oscillator.
\<close>

theorem setRes_out_of_range_counterexample:
  "res (setRes (Num 2) mySubSynth) = Num 2 \<and>
   \<not> in_range 0 1 (res (setRes (Num 2) mySubSynth)) \<and>
   \<not> in_range 0 1 (moog_res (priv_filt (setRes (Num 2) mySubSynth))) \<and>
   \<not> in_range 0 1 (sharp1 (setSharp1 (Num (- 1)) mySubSynth)) \<and>
   \<not> in_range 0 1 (lfo_sharp (priv_osc1 (setSharp1 (Num (- 1)) mySubSynth)))"
  by (simp add: setter_defs getter_defs mySubSynth_def init_def)

text \<open>
  C2, amended: every setter stores its argument unmodified, in its attribute and in the
  parameter of its library object (for \<open>cutoffFact\<close>, as the factor of the cutoff
  product), whether or not the argument lies in the declared range; nothing is clamped
  and nothing is rejected.
\<close>

theorem setters_store_unmodified:
  "priv_type1 (setType1 i s) = i \<and> lfo_type (priv_osc1 (setType1 i s)) = i \<and>
   priv_type2 (setType2 i s) = i \<and> lfo_type (priv_osc2 (setType2 i s)) = i \<and>
   priv_type3 (setType3 i s) = i \<and> lfo_type (priv_osc3 (setType3 i s)) = i \<and>
   priv_sharp1 (setSharp1 x s) = x \<and> lfo_sharp (priv_osc1 (setSharp1 x s)) = x \<and>
   priv_sharp2 (setSharp2 x s) = x \<and> lfo_sharp (priv_osc2 (setSharp2 x s)) = x \<and>
   priv_sharp3 (setSharp3 x s) = x \<and> lfo_sharp (priv_osc3 (setSharp3 x s)) = x \<and>
   priv_cutoffFact (setCutoffFact x s) = x \<and>
   moog_freq (priv_filt (setCutoffFact x s)) = Times (Times Env (Num 20000)) x \<and>
   priv_res (setRes x s) = x \<and> moog_res (priv_filt (setRes x s)) = x"
  by (simp add: setter_defs)

section \<open>The cutoff of the filter\<close>

text \<open>
  C3. At construction and after \<open>setCutoffFact(x)\<close>, by the method or by the property,
  the filter's frequency input is the signal whose value, for every sample, is the
  envelope's output times 20000 times the value of \<open>x\<close>; rendered with a numeric
  factor \<open>c\<close>, the cutoff of the sample is the envelope's output times 20000 times
  \<open>c\<close>.
\<close>

theorem cutoff_signal:
  "sig_val st (moog_freq (priv_filt (init t1 s1 t2 s2 t3 s3 cf r))) =
     v_env st * 20000 * sig_val st cf \<and>
   sig_val st (moog_freq (priv_filt (setCutoffFact x s))) = v_env st * 20000 * sig_val st x \<and>
   sig_val st (moog_freq (priv_filt (cutoffFact_setter x s))) =
     v_env st * 20000 * sig_val st x \<and>
   filter_cutoff W (init t1 s1 t2 s2 t3 s3 (Num c) r) tk = t_env tk * 20000 * c \<and>
   filter_cutoff W (setCutoffFact (Num c) s) tk = t_env tk * 20000 * c"
  by (simp add: init_def setCutoffFact_def cutoffFact_setter_def filter_cutoff_def
      streams3_env)

section \<open>The cutoff factor 0\<close>










section \<open>Boundedness of the filter for a resonance below 1\<close>

text \<open>
  For a sample rate above 0 and a largest cutoff below Nyquist both mappings give a
  coefficient from 0 to 1, so a stage's new value lies between its old value and its
  input. With every resonance at most \<open>kmax < 1\<close> and every input at most \<open>B\<close> in
  magnitude, the stages never leave the bound \<open>B / (1 - kmax)\<close>, whatever the cutoffs
  and however many samples: induction on the samples with the state generalised. The
  bound has no limit as \<open>kmax\<close> tends to 1, and the resonance 1 itself is not covered.
\<close>

lemma clamp_range: "lowest \<le> highest \<Longrightarrow> clamp lowest highest v \<in> {lowest..highest}"
  by (simp add: clamp_def Let_def)

lemma stage_coef_range:
  assumes "0 < fs" "0 \<le> fmax" "fmax < fs / 2"
  shows "0 \<le> stage_coef m fs (clamp 0 fmax fc) \<and> stage_coef m fs (clamp 0 fmax fc) \<le> 1"
proof -
  define c where "c = clamp 0 fmax fc"
  have c: "0 \<le> c" "c \<le> fmax"
    using clamp_range [of 0 fmax fc] assms by (simp_all add: c_def)
  show ?thesis
  proof (cases m)
    case Bilinear
    have lo: "0 \<le> pi * c / fs"
      using c assms by simp
    have "pi * c / fs < pi * (fs / 2) / fs"
      using c assms by (intro divide_strict_right_mono mult_strict_left_mono) simp_all
    then have hi: "pi * c / fs < pi / 2"
      using assms by simp
    have "0 \<le> tan (pi * c / fs)"
    proof (cases "pi * c / fs = 0")
      case True
      show ?thesis unfolding True by simp
    next
      case False
      then have "0 < pi * c / fs" using lo by linarith
      then show ?thesis using tan_gt_zero [OF _ hi] by simp
    qed
    then show ?thesis
      unfolding c_def [symmetric] by (simp add: stage_coef_def Bilinear field_simps)
  next
    case AnalogMatched
    have "0 \<le> 2 * pi * c / fs"
      using c assms by simp
    then have "exp (- (2 * pi * c / fs)) \<le> 1"
      by simp
    then show ?thesis
      unfolding c_def [symmetric] by (simp add: stage_coef_def AnalogMatched)
  qed
qed

lemma one_pole_bound:
  assumes "0 \<le> g" "g \<le> 1" "\<bar>y\<bar> \<le> C" "\<bar>x\<bar> \<le> C"
  shows "\<bar>one_pole g y x\<bar> \<le> C"
proof -
  have "one_pole g y x = (1 - g) * y + g * x"
    by (simp add: one_pole_def algebra_simps)
  also have "\<bar>\<dots>\<bar> \<le> \<bar>(1 - g) * y\<bar> + \<bar>g * x\<bar>"
    by (rule abs_triangle_ineq)
  also have "\<dots> = (1 - g) * \<bar>y\<bar> + g * \<bar>x\<bar>"
    using assms by (simp add: abs_mult)
  also have "\<dots> \<le> (1 - g) * C + g * C"
    using assms by (intro add_mono mult_left_mono) simp_all
  also have "\<dots> = C"
    by (simp add: algebra_simps)
  finally show ?thesis .
qed

lemma feedback_bound:
  assumes "0 \<le> kmax" "kmax < 1" "0 \<le> B" "rs \<le> kmax" "\<bar>x\<bar> \<le> B" "\<bar>y\<bar> \<le> B / (1 - kmax)"
  shows "\<bar>x - clamp 0 1 rs * y\<bar> \<le> B / (1 - kmax)"
proof -
  let ?C = "B / (1 - kmax)"
  have C: "0 \<le> ?C" using assms by simp
  have k: "0 \<le> clamp 0 1 rs" "clamp 0 1 rs \<le> kmax"
    using assms by (simp_all add: clamp_def Let_def)
  have "\<bar>x - clamp 0 1 rs * y\<bar> \<le> \<bar>x\<bar> + \<bar>clamp 0 1 rs * y\<bar>"
    by (rule abs_triangle_ineq4)
  also have "\<dots> = \<bar>x\<bar> + clamp 0 1 rs * \<bar>y\<bar>"
    using k by (simp add: abs_mult)
  also have "\<dots> \<le> B + kmax * ?C"
    using assms k C by (intro add_mono mult_mono) simp_all
  also have "\<dots> = ?C"
    using assms by (simp add: field_simps)
  finally show ?thesis .
qed

lemma filter_process_within:
  assumes "0 < fs" "0 \<le> fmax" "fmax < fs / 2"
    and "0 \<le> kmax" "kmax < 1" "0 \<le> B" "rs \<le> kmax" "\<bar>x\<bar> \<le> B"
    and "ladder_within (B / (1 - kmax)) st"
  shows "ladder_within (B / (1 - kmax)) (filter_process m fs fmax st x fc rs)"
proof -
  let ?C = "B / (1 - kmax)"
  let ?g = "stage_coef m fs (clamp 0 fmax fc)"
  have g: "0 \<le> ?g" "?g \<le> 1"
    using stage_coef_range [OF assms(1-3)] by simp_all
  have st: "\<bar>y1 st\<bar> \<le> ?C" "\<bar>y2 st\<bar> \<le> ?C" "\<bar>y3 st\<bar> \<le> ?C" "\<bar>y4 st\<bar> \<le> ?C"
    using assms(9) by (simp_all add: ladder_within_def)
  have u: "\<bar>x - clamp 0 1 rs * y4 st\<bar> \<le> ?C"
    by (rule feedback_bound [OF assms(4-8) st(4)])
  have a: "\<bar>one_pole ?g (y1 st) (x - clamp 0 1 rs * y4 st)\<bar> \<le> ?C"
    by (rule one_pole_bound [OF g st(1) u])
  have b: "\<bar>one_pole ?g (y2 st) (one_pole ?g (y1 st) (x - clamp 0 1 rs * y4 st))\<bar> \<le> ?C"
    by (rule one_pole_bound [OF g st(2) a])
  have c: "\<bar>one_pole ?g (y3 st)
      (one_pole ?g (y2 st) (one_pole ?g (y1 st) (x - clamp 0 1 rs * y4 st)))\<bar> \<le> ?C"
    by (rule one_pole_bound [OF g st(3) b])
  have d: "\<bar>one_pole ?g (y4 st) (one_pole ?g (y3 st)
      (one_pole ?g (y2 st) (one_pole ?g (y1 st) (x - clamp 0 1 rs * y4 st))))\<bar> \<le> ?C"
    by (rule one_pole_bound [OF g st(4) c])
  show ?thesis
    using a b c d by (simp add: ladder_within_def filter_process_def Let_def)
qed

lemma ladder_bounded_below_one:
  assumes "0 < fs" "0 \<le> fmax" "fmax < fs / 2"
    and "0 \<le> kmax" "kmax < 1" "0 \<le> B"
    and "list_all (\<lambda>(x, fc, rs). \<bar>x\<bar> \<le> B \<and> rs \<le> kmax) xs"
    and "ladder_within (B / (1 - kmax)) st"
  shows "list_all (\<lambda>y. \<bar>y\<bar> \<le> B / (1 - kmax)) (ladder_run m fs fmax st xs)"
  using assms(7,8)
proof (induction xs arbitrary: st)
  case Nil
  show ?case by simp
next
  case (Cons p xs)
  obtain x fc rs where p: "p = (x, fc, rs)" by (cases p)
  have hd: "\<bar>x\<bar> \<le> B" "rs \<le> kmax" and tl: "list_all (\<lambda>(x, fc, rs). \<bar>x\<bar> \<le> B \<and> rs \<le> kmax) xs"
    using Cons.prems(1) by (simp_all add: p)
  have w: "ladder_within (B / (1 - kmax)) (filter_process m fs fmax st x fc rs)"
    by (rule filter_process_within [OF assms(1-6) hd(2) hd(1) Cons.prems(2)])
  then have "\<bar>y4 (filter_process m fs fmax st x fc rs)\<bar> \<le> B / (1 - kmax)"
    by (simp add: ladder_within_def)
  then show ?case
    using Cons.IH [OF tl w] by (simp add: p)
qed

section \<open>The control panel\<close>

text \<open>
  C4, as stated: the control panel built by \<open>ctrl\<close> exposes exactly the eight named
  parameters. \<open>ctrl\<close> opens three windows, not one, and the third (line 123) is the
  envelope's own panel, which the library fills with the sliders of the envelope's
  class: on the default synthesizer the third window is on the envelope and is given no
  map list.
\<close>

theorem ctrl_envelope_window_counterexample:
  "length (snd (ctrl None None False mySubSynth)) = 3 \<and>
   w_target (snd (ctrl None None False mySubSynth) ! 2) = EnvObj \<and>
   w_map_list (snd (ctrl None None False mySubSynth) ! 2) = None \<and>
   w_target (snd (ctrl None None False mySubSynth) ! 2) \<noteq> Self"
  by (simp add: ctrl_def Let_def)

text \<open>
  C4, amended: \<open>ctrl\<close> opens three windows. The first two are on the synthesizer and
  carry, between them, exactly the eight sliders type1, sharp1, type2, sharp2, type3,
  sharp3 (first window) and cutoffFact, res (second window), each with the scale "lin";
  the three type sliders are of kind "int" with the range 0 to 7, the other five of
  kind "float" with the range 0 to 1, and each starts at the stored value of its
  parameter. The third window is on the envelope and is given no map list: its sliders
  are the library's for the envelope, not parameters of the synthesizer.
\<close>

theorem ctrl_panel_parameters:
  "map w_target (snd (ctrl m t w s)) = [Self, Self, EnvObj] \<and>
   map (\<lambda>x. map_option (map sl_name) (w_map_list x)) (snd (ctrl m t w s)) =
     [Some [''type1'', ''sharp1'', ''type2'', ''sharp2'', ''type3'', ''sharp3''],
      Some [''cutoffFact'', ''res''],
      None] \<and>
   map (\<lambda>x. map_option (map sl_scale) (w_map_list x)) (snd (ctrl m t w s)) =
     [Some [''lin'', ''lin'', ''lin'', ''lin'', ''lin'', ''lin''],
      Some [''lin'', ''lin''],
      None] \<and>
   map (\<lambda>x. map_option (map (\<lambda>sl. (sl_res sl, sl_min sl, sl_max sl))) (w_map_list x))
       (snd (ctrl m t w s)) =
     [Some [(''int'', 0, 7), (''float'', 0, 1), (''int'', 0, 7), (''float'', 0, 1),
            (''int'', 0, 7), (''float'', 0, 1)],
      Some [(''float'', 0, 1), (''float'', 0, 1)],
      None] \<and>
   map (\<lambda>x. map_option (map sl_init) (w_map_list x)) (snd (ctrl m t w s)) =
     [Some [stored PType1 s, stored PSharp1 s, stored PType2 s, stored PSharp2 s,
            stored PType3 s, stored PSharp3 s],
      Some [stored PCutoffFact s, stored PRes s],
      None]"
  by (simp add: ctrl_def SLMap_def Let_def getter_defs)

section \<open>The signal before the filter\<close>

text \<open>
  With the wiring of the constructor, the third oscillator's output is its raw
  waveform times the envelope plus the second's output, and so on down the chain.
\<close>

lemma filter_input_wired:
  assumes "wiring s = ((Freqs, Env, Num 0), (Freqs, Env, Osc1), (Freqs, Env, Osc2), Osc3)"
  shows "filter_input W s tk =
     lfo_raw (W 3) (streams2 W s tk) (priv_osc3 s) * t_env tk +
     (lfo_raw (W 2) (streams1 W s tk) (priv_osc2 s) * t_env tk +
      (lfo_raw (W 1) (streams0 tk) (priv_osc1 s) * t_env tk + 0))"
  using assms
  by (simp add: wiring_def filter_input_def streams3_def streams2_def streams1_def
      streams0_def lfo_out_def)

text \<open>
  C5. After construction and any sequence of calls, the filter's input for a sample is
  the sum of the three oscillators' waveforms, each times the envelope's output, and
  that equals the spec's formulation: the bank's sum times the envelope level. (Over
  the reals; distributivity is not exact in machine floats.)
\<close>

theorem filter_input_is_bank_times_env:
  "(let s = run cs (init t1 s1 t2 s2 t3 s3 cf r);
        r1 = lfo_raw (W 1) (streams0 tk) (priv_osc1 s);
        r2 = lfo_raw (W 2) (streams1 W s tk) (priv_osc2 s);
        r3 = lfo_raw (W 3) (streams2 W s tk) (priv_osc3 s)
    in filter_input W s tk = r1 * t_env tk + r2 * t_env tk + r3 * t_env tk \<and>
       filter_input W s tk = voice_prefilter_spec r1 r2 r3 (t_env tk))"
proof -
  have w: "wiring (run cs (init t1 s1 t2 s2 t3 s3 cf r)) =
      ((Freqs, Env, Num 0), (Freqs, Env, Osc1), (Freqs, Env, Osc2), Osc3)"
    by (simp add: run_wiring wiring_init)
  show ?thesis
    unfolding Let_def filter_input_wired [OF w] voice_prefilter_spec_def
      oscillatorBank_advance_def
    by (simp add: algebra_simps)
qed

section \<open>The envelope\<close>

text \<open>
  The scenario of the spec: velocity 1, note-on at 0, note-off at 0.6 seconds. The
  level is treated stage by stage.
\<close>

lemma held_at_off: "held_level env0 1 0.6 = 0.2" "held_level env0 1 (3 / 5) = 1 / 5"
  by (simp_all add: held_level_def env0_def)

lemma env0_points:
  "adsr_level env0 1 0.6 0.05 = 1" "env_out env0 1 0.6 0.05 = 0.65"
  "adsr_level env0 1 0.6 0.45 = 0.2" "env_out env0 1 0.6 0.45 = 0.13"
  by (simp_all add: env_out_def adsr_level_def held_level_def env0_def)

lemma held_bounds: "0 \<le> t \<Longrightarrow> held_level env0 1 t \<le> 1"
  by (simp add: held_level_def env0_def field_simps)

lemma level_le: "adsr_level env0 1 0.6 t \<le> 1"
proof -
  have rel: "adsr_release env0 = 0.5"
    by (simp add: env0_def)
  have "0.6 < t \<Longrightarrow> t \<le> 1.1 \<Longrightarrow> 0.2 * (1 - (t - 0.6) / 0.5) \<le> (1::real)"
    by (simp add: field_simps)
  then show ?thesis
    using held_bounds [of t]
    by (simp add: adsr_level_def held_at_off rel)
qed

lemma env_le: "env_out env0 1 0.6 t \<le> 0.65"
  using level_le [of t] by (simp add: env_out_def env0_def)

lemma env_sustain: "0.45 \<le> t \<Longrightarrow> t \<le> 0.6 \<Longrightarrow> env_out env0 1 0.6 t = 0.13"
  by (simp add: env_out_def adsr_level_def held_level_def env0_def)

lemma env_release:
  "0.6 \<le> t \<Longrightarrow> t \<le> 1.1 \<Longrightarrow> env_out env0 1 0.6 t = 0.13 * (1 - (t - 0.6) / 0.5)"
  by (cases "t = 0.6")
    (simp_all add: env_out_def adsr_level_def held_at_off,
     simp_all add: env0_def held_level_def)

lemma env_decline:
  assumes "0.6 \<le> t" "t < t'" "t' \<le> 1.1"
  shows "env_out env0 1 0.6 t' < env_out env0 1 0.6 t"
proof -
  have "env_out env0 1 0.6 t = 0.13 * (1 - (t - 0.6) / 0.5)"
    using assms by (intro env_release) simp_all
  moreover have "env_out env0 1 0.6 t' = 0.13 * (1 - (t' - 0.6) / 0.5)"
    using assms by (intro env_release) simp_all
  ultimately show ?thesis using assms by simp
qed

lemma env_near_end: "1.099 \<le> t \<Longrightarrow> \<bar>env_out env0 1 0.6 t\<bar> \<le> 0.001"
proof (cases "t \<le> 1.1")
  case True
  assume "1.099 \<le> t"
  then have "env_out env0 1 0.6 t = 0.13 * (1 - (t - 0.6) / 0.5)"
    using True by (intro env_release) simp_all
  then show ?thesis
    using True \<open>1.099 \<le> t\<close> by (simp add: abs_le_iff)
next
  case False
  then show ?thesis
    by (simp add: env_out_def adsr_level_def held_at_off) (simp add: env0_def)
qed

text \<open>
  C6, as stated: the amplitude envelope reaches the sustain level 0.2 * velocity by
  0.45 seconds. The envelope object is created with \<open>mul = 0.65\<close> (line 90): the
  signal that scales the oscillators and drives the cutoff is 0.13 at 0.45 seconds for
  the velocity 1, not 0.2.
\<close>

theorem envelope_sustain_counterexample:
  "env_out (priv_env mySubSynth) 1 0.6 0.45 = 0.13 \<and>
   env_out (priv_env mySubSynth) 1 0.6 0.45 \<noteq> 0.2 * 1"
  by (simp add: mySubSynth_def init_def env_out_def adsr_level_def held_level_def)

text \<open>
  C6, amended: the envelope is an ADSR with attack 0.05 s, decay 0.4 s, sustain 0.2 and
  release 0.5 s, and with the output gain 0.65, in every state the calls reach. For
  velocity 1, note-on at 0 and note-off at 0.6 s, the envelope's output is at its
  largest at 0.05 s, is 0.65 * 0.2 = 0.13 (the ADSR level 0.2 times the gain) from
  0.45 s to 0.6 s, falls strictly from 0.6 s to 1.1 s, and is within 0.001 of 0 from
  1.099 s on.
\<close>

theorem envelope_trajectory:
  "(let e = priv_env (run cs (init t1 s1 t2 s2 t3 s3 cf r)) in
      adsr_attack e = 0.05 \<and> adsr_decay e = 0.4 \<and> adsr_sustain e = 0.2 \<and>
      adsr_release e = 0.5 \<and> adsr_mul e = 0.65 \<and>
      (\<forall>t. env_out e 1 0.6 t \<le> env_out e 1 0.6 0.05) \<and>
      adsr_level e 1 0.6 0.45 = 0.2 \<and> env_out e 1 0.6 0.45 = 0.13 \<and>
      (\<forall>t. 0.45 \<le> t \<and> t \<le> 0.6 \<longrightarrow> env_out e 1 0.6 t = 0.13) \<and>
      (\<forall>t t'. 0.6 \<le> t \<and> t < t' \<and> t' \<le> 1.1 \<longrightarrow>
         env_out e 1 0.6 t' < env_out e 1 0.6 t) \<and>
      (\<forall>t. 1.099 \<le> t \<longrightarrow> \<bar>env_out e 1 0.6 t\<bar> \<le> 0.001))"
proof -
  have cfg: "adsr_attack env0 = 0.05 \<and> adsr_decay env0 = 0.4 \<and> adsr_sustain env0 = 0.2 \<and>
      adsr_release env0 = 0.5 \<and> adsr_mul env0 = 0.65"
    by (simp add: env0_def)
  have peak: "\<forall>t. env_out env0 1 0.6 t \<le> env_out env0 1 0.6 0.05"
    unfolding env0_points(2) by (intro allI env_le)
  have sus: "\<forall>t. 0.45 \<le> t \<and> t \<le> 0.6 \<longrightarrow> env_out env0 1 0.6 t = 0.13"
    using env_sustain by blast
  have dec: "\<forall>t t'. 0.6 \<le> t \<and> t < t' \<and> t' \<le> 1.1 \<longrightarrow>
      env_out env0 1 0.6 t' < env_out env0 1 0.6 t"
    using env_decline by blast
  have fin: "\<forall>t. 1.099 \<le> t \<longrightarrow> \<bar>env_out env0 1 0.6 t\<bar> \<le> 0.001"
    using env_near_end by blast
  show ?thesis
    unfolding Let_def env_init
    using cfg peak env0_points(3) env0_points(4) sus dec fin by blast
qed

theorem envelope_trajectory_witness:
  "(0.45::real) \<le> 0.5 \<and> (0.5::real) \<le> 0.6 \<and>
   env_out (priv_env mySubSynth) 1 0.6 0.5 = 0.13 \<and>
   (0.6::real) \<le> 0.7 \<and> (0.7::real) < 0.8 \<and> (0.8::real) \<le> 1.1 \<and>
   env_out (priv_env mySubSynth) 1 0.6 0.8 < env_out (priv_env mySubSynth) 1 0.6 0.7 \<and>
   (1.099::real) \<le> 1.1 \<and> \<bar>env_out (priv_env mySubSynth) 1 0.6 1.1\<bar> \<le> 0.001"
proof -
  note th = envelope_trajectory [of "[]" 0 "Num 1" 0 "Num 1" 0 "Num 1" "Num 0.5" "Num 0.5",
      unfolded Let_def run.simps, folded mySubSynth_def]
  from th have a:
    "\<forall>t. 0.45 \<le> t \<and> t \<le> 0.6 \<longrightarrow> env_out (priv_env mySubSynth) 1 0.6 t = 0.13"
    by blast
  from th have b: "\<forall>t t'. 0.6 \<le> t \<and> t < t' \<and> t' \<le> 1.1 \<longrightarrow>
      env_out (priv_env mySubSynth) 1 0.6 t' < env_out (priv_env mySubSynth) 1 0.6 t"
    by blast
  from th have c:
    "\<forall>t. 1.099 \<le> t \<longrightarrow> \<bar>env_out (priv_env mySubSynth) 1 0.6 t\<bar> \<le> 0.001"
    by blast
  from a [rule_format, of "0.5"] b [rule_format, of "0.7" "0.8"] c [rule_format, of "1.1"]
  show ?thesis by simp
qed

section \<open>The panner\<close>

text \<open>
  C9. In every state that construction and any sequence of calls reach, the panner
  reads the filter, has two outputs and the pan position 0.5; the two channels of a
  rendered sample are equal, each half of the filter's output; and no slider of
  \<open>ctrl\<close> is named pan. No call changes the panner: the sequence is arbitrary.
\<close>

theorem pan_fixed_center:
  "(let s = run cs (init t1 s1 t2 s2 t3 s3 cf r) in
      pan_pan (priv_stereo s) = Num 0.5 \<and> pan_outs (priv_stereo s) = 2 \<and>
      pan_input (priv_stereo s) = Filt \<and>
      fst (render_stereo W F s tk) = snd (render_stereo W F s tk) \<and>
      fst (render_stereo W F s tk) = v_filt (render W F s tk) * 0.5 \<and>
      ''pan'' \<notin> set (map sl_name (self_maps (snd (ctrl m t w s)))))"
  by (simp add: Let_def run_env_stereo render_stereo_def pan_out_def init_def
      ctrl_def self_maps_def SLMap_def)

section \<open>Defaults and frame\<close>

text \<open>
  C10. The synthesizer constructed with no arguments has the types 0, the sharpness 1
  (not 0.5), the cutoff factor 0.5 and the resonance 0.5. Each setter changes the
  stored value of its own parameter and the parameter of its own library object, and
  nothing else: every other stored parameter, every other parameter of a library
  object, the wiring, the envelope, the panner and the map lists are as before.
\<close>

theorem defaults_and_frame:
  "type1 mySubSynth = 0 \<and> type2 mySubSynth = 0 \<and> type3 mySubSynth = 0 \<and>
   sharp1 mySubSynth = Num 1 \<and> sharp2 mySubSynth = Num 1 \<and> sharp3 mySubSynth = Num 1 \<and>
   sharp1 mySubSynth \<noteq> Num 0.5 \<and>
   cutoffFact mySubSynth = Num 0.5 \<and> res mySubSynth = Num 0.5 \<and>
   stored p (setType1 i s) = (if p = PType1 then IntV i else stored p s) \<and>
   stored p (setSharp1 x s) = (if p = PSharp1 then SigV x else stored p s) \<and>
   stored p (setType2 i s) = (if p = PType2 then IntV i else stored p s) \<and>
   stored p (setSharp2 x s) = (if p = PSharp2 then SigV x else stored p s) \<and>
   stored p (setType3 i s) = (if p = PType3 then IntV i else stored p s) \<and>
   stored p (setSharp3 x s) = (if p = PSharp3 then SigV x else stored p s) \<and>
   stored p (setCutoffFact x s) = (if p = PCutoffFact then SigV x else stored p s) \<and>
   stored p (setRes x s) = (if p = PRes then SigV x else stored p s) \<and>
   dsp_param p (setType1 i s) = (if p = PType1 then IntV i else dsp_param p s) \<and>
   dsp_param p (setSharp1 x s) = (if p = PSharp1 then SigV x else dsp_param p s) \<and>
   dsp_param p (setType2 i s) = (if p = PType2 then IntV i else dsp_param p s) \<and>
   dsp_param p (setSharp2 x s) = (if p = PSharp2 then SigV x else dsp_param p s) \<and>
   dsp_param p (setType3 i s) = (if p = PType3 then IntV i else dsp_param p s) \<and>
   dsp_param p (setSharp3 x s) = (if p = PSharp3 then SigV x else dsp_param p s) \<and>
   dsp_param p (setCutoffFact x s) =
     (if p = PCutoffFact then SigV (Times (Times Env (Num 20000)) x) else dsp_param p s) \<and>
   dsp_param p (setRes x s) = (if p = PRes then SigV x else dsp_param p s) \<and>
   wiring (setType1 i s) = wiring s \<and> untouched (setType1 i s) = untouched s \<and>
   wiring (setSharp1 x s) = wiring s \<and> untouched (setSharp1 x s) = untouched s \<and>
   wiring (setType2 i s) = wiring s \<and> untouched (setType2 i s) = untouched s \<and>
   wiring (setSharp2 x s) = wiring s \<and> untouched (setSharp2 x s) = untouched s \<and>
   wiring (setType3 i s) = wiring s \<and> untouched (setType3 i s) = untouched s \<and>
   wiring (setSharp3 x s) = wiring s \<and> untouched (setSharp3 x s) = untouched s \<and>
   wiring (setCutoffFact x s) = wiring s \<and> untouched (setCutoffFact x s) = untouched s \<and>
   wiring (setRes x s) = wiring s \<and> untouched (setRes x s) = untouched s"
  by (cases p) (simp_all add: mySubSynth_def init_def getter_defs setter_defs wiring_def
      untouched_def)

end
